theory Spec2Isabelle
  imports Complex_Main "HOL-Library.Word"
begin

unbundle bit_operations_syntax

section \<open>Traffic control orchestration of tcconfig (tcconfig/traffic\_control.py)\<close>

text \<open>
  A shallow embedding of the class \<open>TrafficControl\<close> and of the module function
  \<open>_validate_within_min_max\<close>, under Python 3. Python values are read as follows.
  \<^item> A \<open>str\<close> that can hold a device name is \<open>unicode\<close>, the list of its code points;
    a literal of the source is written \<open>lit ''...''\<close>. Byte strings, and texts that are
    built from ASCII characters only, are \<open>string\<close>.
  \<^item> A numeric parameter is \<open>pynum option\<close>: \<open>None\<close> is Python's \<open>None\<close>; a number is an
    int of any size or a float, which is a finite value, an infinity or NaN.
  \<^item> Every exception is a value of \<open>error\<close>, and a method that can raise returns
    \<open>error + 'a\<close> with \<open>Inl\<close> for the exception.
  \<^item> Commands given to the host go through an environment of oracles that answer from the
    history of what was issued before; the history is passed along and returned extended.
\<close>

subsection \<open>Strings\<close>

type_synonym unicode = "nat list"

definition lit :: "string \<Rightarrow> unicode" where
  "lit s = map of_char s"

subsection \<open>Numbers\<close>

datatype pyfloat = Finite real | PosInf | NegInf | NaN

datatype pynum = PyInt int | PyFloat pyfloat

text \<open>
  The comparisons \<open>v > m\<close>, \<open>v < m\<close>, \<open>v <= m\<close> and \<open>v == m\<close> of a number with an int:
  exact on ints and on finite floats, and every comparison with NaN is false.
\<close>

fun py_gt :: "pynum \<Rightarrow> int \<Rightarrow> bool" where
  "py_gt (PyInt i) m = (i > m)"
| "py_gt (PyFloat (Finite r)) m = (r > of_int m)"
| "py_gt (PyFloat PosInf) m = True"
| "py_gt (PyFloat NegInf) m = False"
| "py_gt (PyFloat NaN) m = False"

fun py_lt :: "pynum \<Rightarrow> int \<Rightarrow> bool" where
  "py_lt (PyInt i) m = (i < m)"
| "py_lt (PyFloat (Finite r)) m = (r < of_int m)"
| "py_lt (PyFloat PosInf) m = False"
| "py_lt (PyFloat NegInf) m = True"
| "py_lt (PyFloat NaN) m = False"

fun py_le :: "pynum \<Rightarrow> int \<Rightarrow> bool" where
  "py_le (PyInt i) m = (i \<le> m)"
| "py_le (PyFloat (Finite r)) m = (r \<le> of_int m)"
| "py_le (PyFloat PosInf) m = False"
| "py_le (PyFloat NegInf) m = True"
| "py_le (PyFloat NaN) m = False"

fun py_eq :: "pynum \<Rightarrow> int \<Rightarrow> bool" where
  "py_eq (PyInt i) m = (i = m)"
| "py_eq (PyFloat (Finite r)) m = (r = of_int m)"
| "py_eq (PyFloat PosInf) m = False"
| "py_eq (PyFloat NegInf) m = False"
| "py_eq (PyFloat NaN) m = False"

text \<open>
  \<open>"{:f}".format(v)\<close> turns an int into a float first and raises \<open>OverflowError\<close> when
  the int rounds to a value beyond the largest float, that is from \<open>2^1024 - 2^970\<close> on;
  a float, also an infinity, is always formatted.
\<close>

fun format_f_overflows :: "pynum \<Rightarrow> bool" where
  "format_f_overflows (PyInt i) = (\<bar>i\<bar> \<ge> 2 ^ 1024 - 2 ^ 970)"
| "format_f_overflows (PyFloat f) = False"

subsection \<open>Exceptions\<close>

datatype error =
    ValueError_too_high string int pynum    \<comment> \<open>parameter name, max\_value, value\<close>
  | ValueError_too_low string int pynum     \<comment> \<open>parameter name, min\_value, value\<close>
  | ValueError_no_valid_parameter           \<comment> \<open>"there is no valid net emulation parameter"\<close>
  | ValueError_unknown_direction string     \<comment> \<open>"unknown direction: " + direction\<close>
  | ValueError_invalid_literal string       \<comment> \<open>\<open>int(s, 16)\<close> on a string that is no number\<close>
  | ValueError_invalid_network              \<comment> \<open>raised by \<open>sanitize_network\<close>\<close>
  | EmptyParameterError                     \<comment> \<open>"bandwidth\_rate is empty"\<close>
  | InvalidParameterError pynum             \<comment> \<open>"rate must be greater than zero: actual=..."\<close>
  | NetworkInterfaceNotFoundError unicode
  | UnboundLocalError                       \<comment> \<open>a local variable read before assignment\<close>
  | TypeError                               \<comment> \<open>\<open>str + None\<close>\<close>
  | UnicodeEncodeError                      \<comment> \<open>\<open>str.encode("latin-1")\<close> on a character beyond U+00FF\<close>
  | OverflowError                           \<comment> \<open>"int too large to convert to float"\<close>
  | Other_exception string                  \<comment> \<open>any other exception a collaborator raises, by name\<close>

subsection \<open>Traffic direction\<close>

text \<open>
  The module \<open>_traffic_direction\<close> is not part of the sources at hand. Its two constants
  are the constructors \<open>OUTGOING\<close> and \<open>INCOMING\<close>. The constructor of \<open>TrafficControl\<close>
  has \<open>direction=None\<close> as default (\<open>No_direction\<close>), and \<open>get_tc_device\<close> concatenates the
  direction to a string, so every other value a caller can pass on purpose is a string
  different from both constants (\<open>Other_direction\<close>).
\<close>

datatype traffic_direction =
    OUTGOING
  | INCOMING
  | Other_direction string
  | No_direction

subsection \<open>Number formatting and parsing\<close>

text \<open>The digit characters of \<open>"{:d}"\<close>, \<open>"{:x}"\<close> and \<open>hexdigest\<close>: \<open>0-9\<close>, then \<open>a-f\<close>.\<close>

definition hex_digit :: "nat \<Rightarrow> char" where
  "hex_digit n = (if n < 10 then char_of (48 + n) else char_of (87 + n))"

fun dec_str :: "nat \<Rightarrow> string" where
  "dec_str n = (if n < 10 then [hex_digit n] else dec_str (n div 10) @ [hex_digit (n mod 10)])"

fun hex_str :: "nat \<Rightarrow> string" where
  "hex_str n = (if n < 16 then [hex_digit n] else hex_str (n div 16) @ [hex_digit (n mod 16)])"

declare dec_str.simps [simp del] hex_str.simps [simp del]

text \<open>\<open>"{:d}".format(i)\<close> and \<open>"{:x}".format(i)\<close> for a Python int.\<close>

definition format_d :: "int \<Rightarrow> string" where
  "format_d i = (if i < 0 then CHR ''-'' # dec_str (nat (- i)) else dec_str (nat i))"

definition format_x :: "int \<Rightarrow> string" where
  "format_x i = (if i < 0 then CHR ''-'' # hex_str (nat (- i)) else hex_str (nat i))"

text \<open>
  \<open>int(s, 16)\<close> on a plain string of hexadecimal digits, the only form the class passes
  to it; the empty string and a string with any other character raise \<open>ValueError\<close>.
\<close>

definition hex_value :: "char \<Rightarrow> nat option" where
  "hex_value c =
     (let n = (of_char c :: nat)
      in if 48 \<le> n \<and> n \<le> 57 then Some (n - 48)
         else if 97 \<le> n \<and> n \<le> 102 then Some (n - 87)
         else if 65 \<le> n \<and> n \<le> 70 then Some (n - 55)
         else None)"

fun hex_parse :: "nat \<Rightarrow> string \<Rightarrow> nat option" where
  "hex_parse acc [] = Some acc"
| "hex_parse acc (c # cs) =
     (case hex_value c of None \<Rightarrow> None | Some d \<Rightarrow> hex_parse (16 * acc + d) cs)"

definition int_base16 :: "string \<Rightarrow> error + int" where
  "int_base16 s =
     (if s = [] then Inl (ValueError_invalid_literal s)
      else case hex_parse 0 s of
             None \<Rightarrow> Inl (ValueError_invalid_literal s)
           | Some n \<Rightarrow> Inr (int n))"

text \<open>
  \<open>six.b(s)\<close> is \<open>s.encode("latin-1")\<close>: one byte for each character up to U+00FF, and
  \<open>UnicodeEncodeError\<close> when the string has any character beyond.
\<close>

definition latin1 :: "unicode \<Rightarrow> bool" where
  "latin1 s = list_all (\<lambda>c. c < 256) s"

definition six_b :: "unicode \<Rightarrow> error + string" where
  "six_b s = (if latin1 s then Inr (map char_of s) else Inl UnicodeEncodeError)"

text \<open>
  \<open>hashlib.md5(...).hexdigest()\<close>: the digest function itself is a parameter \<open>md5\<close> of the
  model, from the bytes to the 128 bits of the digest (first byte most significant);
  \<open>hexdigest\<close> writes them as 32 hexadecimal digits, first nibble first.
\<close>

definition hexdigest :: "128 word \<Rightarrow> string" where
  "hexdigest w = map (\<lambda>i. hex_digit (unat (drop_bit (4 * (31 - i)) w AND 15))) [0..<32]"

text \<open>\<open>sep.join(xs)\<close> and \<open>dataproperty.is_empty_string\<close> (empty after \<open>strip()\<close>).\<close>

fun join :: "'a list \<Rightarrow> 'a list list \<Rightarrow> 'a list" where
  "join sep [] = []"
| "join sep [x] = x"
| "join sep (x # y # ys) = x @ sep @ join sep (y # ys)"

definition is_space :: "char \<Rightarrow> bool" where
  "is_space c = (c \<in> set [CHR '' '', CHR 0x09, CHR 0x0A, CHR 0x0B, CHR 0x0C, CHR 0x0D])"

definition is_empty_string :: "string \<Rightarrow> bool" where
  "is_empty_string s = list_all is_space s"

subsection \<open>The object\<close>

record traffic_control =
  device :: unicode
  direction :: traffic_direction
  bandwidth_rate :: "pynum option"
  latency_ms :: "pynum option"
  latency_distro_ms :: "pynum option"
  packet_loss_rate :: "pynum option"
  corruption_rate :: "pynum option"
  network :: "string option"
  src_network :: "string option"
  port :: "pynum option"
  is_enable_iptables :: bool
  qdisc_major_id :: int

definition NETEM_QDISC_MAJOR_ID_OFFSET :: int where "NETEM_QDISC_MAJOR_ID_OFFSET = 10"

definition MIN_PACKET_LOSS_RATE :: int where "MIN_PACKET_LOSS_RATE = 0"
definition MAX_PACKET_LOSS_RATE :: int where "MAX_PACKET_LOSS_RATE = 100"
definition MIN_LATENCY_MS :: int where "MIN_LATENCY_MS = 0"
definition MAX_LATENCY_MS :: int where "MAX_LATENCY_MS = 10000"
definition MIN_CORRUPTION_RATE :: int where "MIN_CORRUPTION_RATE = 0"
definition MAX_CORRUPTION_RATE :: int where "MAX_CORRUPTION_RATE = 100"
definition MIN_PORT :: int where "MIN_PORT = 0"
definition MAX_PORT :: int where "MAX_PORT = 65535"

definition ifb_device :: "traffic_control \<Rightarrow> string" where
  "ifb_device tc = ''ifb'' @ format_d (qdisc_major_id tc)"

text \<open>
  \<open>__get_device_qdisc_major_id\<close>: the device name is encoded, and the first three digits
  of the digest of its bytes, behind the digit 1, are read in base 16.
\<close>

definition get_device_qdisc_major_id :: "(string \<Rightarrow> 128 word) \<Rightarrow> unicode \<Rightarrow> error + int" where
  "get_device_qdisc_major_id md5 dev =
     (case six_b dev of
        Inl err \<Rightarrow> Inl err
      | Inr bytes \<Rightarrow>
          (let base_device_hash = take 3 (hexdigest (md5 bytes));
               device_hash_prefix = ''1''
           in int_base16 (device_hash_prefix @ base_device_hash)))"

text \<open>
  \<open>__init__\<close>. The rate parser \<open>Humanreadable(kilo_size=1000).humanreadable_to_kilobyte\<close>
  is a parameter: it gives \<open>None\<close> where the parser raises \<open>ValueError\<close>, which the
  constructor turns into an absent rate.
\<close>

definition init ::
  "(string \<Rightarrow> 128 word) \<Rightarrow> (string option \<Rightarrow> pynum option) \<Rightarrow> unicode \<Rightarrow> traffic_direction \<Rightarrow>
   string option \<Rightarrow> pynum option \<Rightarrow> pynum option \<Rightarrow> pynum option \<Rightarrow> pynum option \<Rightarrow>
   string option \<Rightarrow> pynum option \<Rightarrow> string option \<Rightarrow> bool \<Rightarrow> error + traffic_control" where
  "init md5 humanreadable_to_kilobyte dev dir bw lat distro loss corr net prt src ipt =
     (case get_device_qdisc_major_id md5 dev of
        Inl e \<Rightarrow> Inl e
      | Inr major \<Rightarrow>
          Inr \<lparr> device = dev, direction = dir,
                bandwidth_rate = humanreadable_to_kilobyte bw,
                latency_ms = lat, latency_distro_ms = distro,
                packet_loss_rate = loss, corruption_rate = corr,
                network = net, src_network = src, port = prt,
                is_enable_iptables = ipt, qdisc_major_id = major \<rparr>)"

definition get_tc_device :: "traffic_control \<Rightarrow> error + unicode" where
  "get_tc_device tc =
     (if direction tc = OUTGOING then Inr (device tc)
      else if direction tc = INCOMING then Inr (lit (ifb_device tc))
      else case direction tc of
             Other_direction s \<Rightarrow> Inl (ValueError_unknown_direction s)
           | _ \<Rightarrow> Inl TypeError)"

text \<open>
  \<open>get_netem_qdisc_major_id\<close>: \<open>direction_offset\<close> is assigned in the two branches only,
  and read in the return expression.
\<close>

definition get_netem_qdisc_major_id :: "traffic_control \<Rightarrow> int \<Rightarrow> error + int" where
  "get_netem_qdisc_major_id tc base_id =
     (let direction_offset =
            (if direction tc = OUTGOING then Some 0
             else if direction tc = INCOMING then Some 1
             else None)
      in case direction_offset of
           None \<Rightarrow> Inl UnboundLocalError
         | Some off \<Rightarrow> Inr (base_id + NETEM_QDISC_MAJOR_ID_OFFSET + off))"

subsection \<open>Parameter validation\<close>

text \<open>
  \<open>dataproperty.FloatType(v).is_type()\<close>, read as the spec reads it, as the test that
  the field is present: \<open>None\<close> is no number, every number is one.
\<close>

definition FloatType_is_type :: "pynum option \<Rightarrow> bool" where
  "FloatType_is_type v = (v \<noteq> None)"

text \<open>
  \<open>_validate_within_min_max\<close>: the message of each \<open>ValueError\<close> is built with
  \<open>"{:f}"\<close> for the bound and for the value, before the error is raised.
\<close>

definition validate_within_min_max :: "string \<Rightarrow> pynum option \<Rightarrow> int \<Rightarrow> int \<Rightarrow> error + unit" where
  "validate_within_min_max param_name val min_value max_value =
     (case val of
        None \<Rightarrow> Inr ()
      | Some v \<Rightarrow>
          if py_gt v max_value then
            (if format_f_overflows v then Inl OverflowError
             else Inl (ValueError_too_high param_name max_value v))
          else if py_lt v min_value then
            (if format_f_overflows v then Inl OverflowError
             else Inl (ValueError_too_low param_name min_value v))
          else Inr ())"

definition validate_bandwidth_rate :: "traffic_control \<Rightarrow> error + unit" where
  "validate_bandwidth_rate tc =
     (if \<not> FloatType_is_type (bandwidth_rate tc) then Inl EmptyParameterError
      else case bandwidth_rate tc of
             None \<Rightarrow> Inl TypeError
           | Some r \<Rightarrow> if py_le r 0 then Inl (InvalidParameterError r) else Inr ())"

definition validate_network_delay :: "traffic_control \<Rightarrow> error + unit" where
  "validate_network_delay tc =
     (case validate_within_min_max ''latency_ms'' (latency_ms tc) MIN_LATENCY_MS MAX_LATENCY_MS of
        Inl e \<Rightarrow> Inl e
      | Inr _ \<Rightarrow>
          validate_within_min_max ''latency_distro_ms'' (latency_distro_ms tc)
            MIN_LATENCY_MS MAX_LATENCY_MS)"

definition validate_packet_loss_rate :: "traffic_control \<Rightarrow> error + unit" where
  "validate_packet_loss_rate tc =
     validate_within_min_max ''packet_loss_rate'' (packet_loss_rate tc)
       MIN_PACKET_LOSS_RATE MAX_PACKET_LOSS_RATE"

definition validate_corruption_rate :: "traffic_control \<Rightarrow> error + unit" where
  "validate_corruption_rate tc =
     validate_within_min_max ''corruption_rate'' (corruption_rate tc)
       MIN_CORRUPTION_RATE MAX_CORRUPTION_RATE"

definition validate_port :: "traffic_control \<Rightarrow> error + unit" where
  "validate_port tc = validate_within_min_max ''port'' (port tc) MIN_PORT MAX_PORT"

text \<open>
  \<open>__validate_netem_parameter\<close>: of the errors of \<open>validate_bandwidth_rate\<close> only
  \<open>EmptyParameterError\<close> is caught; the last test is
  \<open>all([not FloatType(value).is_type() or value == 0 for value in param_list])\<close>.
\<close>

definition validate_netem_parameter :: "traffic_control \<Rightarrow> error + unit" where
  "validate_netem_parameter tc =
     (case (case validate_bandwidth_rate tc of
              Inl EmptyParameterError \<Rightarrow> Inr ()
            | r \<Rightarrow> r) of
        Inl e \<Rightarrow> Inl e
      | Inr _ \<Rightarrow>
     (case validate_network_delay tc of
        Inl e \<Rightarrow> Inl e
      | Inr _ \<Rightarrow>
     (case validate_packet_loss_rate tc of
        Inl e \<Rightarrow> Inl e
      | Inr _ \<Rightarrow>
     (case validate_corruption_rate tc of
        Inl e \<Rightarrow> Inl e
      | Inr _ \<Rightarrow>
          (let param_list = [bandwidth_rate tc, latency_ms tc,
                             packet_loss_rate tc, corruption_rate tc]
           in if list_all (\<lambda>v. \<not> FloatType_is_type v
                                \<or> (case v of None \<Rightarrow> False | Some x \<Rightarrow> py_eq x 0))
                   param_list
              then Inl ValueError_no_valid_parameter
              else Inr ())))))"

subsection \<open>The host\<close>

text \<open>
  What the class does to the host is a list of events, oldest first. The collaborators
  that are not part of the sources at hand (\<open>SubprocessRunner\<close>, \<open>run_command_helper\<close>,
  \<open>verify_network_interface\<close>, \<open>IptablesMangleController\<close>, the shaper) are oracles of
  an environment: each answers from the history so far, so the same command may succeed
  once and fail later. A command runner returns the exit status of the command; the
  helper also gets the pattern of tolerated messages and the text to log. A collaborator
  may also raise instead of returning: \<open>faults\<close> gives the exception, if any, that the
  collaborator called for an event raises after a history.
\<close>

datatype event =
    Command unicode     \<comment> \<open>a command line given to the host\<close>
  | Iptables_clear      \<comment> \<open>\<open>IptablesMangleController.clear()\<close>\<close>
  | Set_shaping         \<comment> \<open>\<open>TbfShaper.set_shaping()\<close>\<close>

record env =
  exit_status :: "event list \<Rightarrow> unicode \<Rightarrow> int"
  helper_status :: "event list \<Rightarrow> unicode \<Rightarrow> string \<Rightarrow> string \<Rightarrow> int"
  interfaces :: "event list \<Rightarrow> unicode \<Rightarrow> bool"
  mangle_removed :: "event list \<Rightarrow> bool"
  faults :: "event list \<Rightarrow> event \<Rightarrow> error option"

text \<open>A host none of whose collaborators ever raises: they report through their results.\<close>

definition no_faults :: "event list \<Rightarrow> event \<Rightarrow> error option" where
  "no_faults h ev = None"

definition returning :: "env \<Rightarrow> env" where
  "returning e = e\<lparr>faults := no_faults\<rparr>"

text \<open>Sequencing: an exception ends the rest of the statements.\<close>

definition bind_io ::
  "(error + 'a) \<times> event list \<Rightarrow> ('a \<Rightarrow> event list \<Rightarrow> (error + 'b) \<times> event list) \<Rightarrow>
   (error + 'b) \<times> event list" where
  "bind_io m f = (case m of (Inl err, h) \<Rightarrow> (Inl err, h) | (Inr x, h) \<Rightarrow> f x h)"

definition SubprocessRunner_run :: "env \<Rightarrow> unicode \<Rightarrow> event list \<Rightarrow> (error + int) \<times> event list" where
  "SubprocessRunner_run e command h =
     (case faults e h (Command command) of
        Some err \<Rightarrow> Inl err
      | None \<Rightarrow> Inr (exit_status e h command),
      h @ [Command command])"

definition run_command_helper ::
  "env \<Rightarrow> unicode \<Rightarrow> string \<Rightarrow> string \<Rightarrow> event list \<Rightarrow> (error + int) \<times> event list" where
  "run_command_helper e command error_regexp message h =
     (case faults e h (Command command) of
        Some err \<Rightarrow> Inl err
      | None \<Rightarrow> Inr (helper_status e h command error_regexp message),
      h @ [Command command])"

text \<open>
  Modelled from the spec: \<open>verify_network_interface\<close> of the module \<open>_common\<close>, which
  raises \<open>NetworkInterfaceNotFoundError\<close> when the named device does not exist on the host.
\<close>

definition verify_network_interface :: "env \<Rightarrow> unicode \<Rightarrow> event list \<Rightarrow> error + unit" where
  "verify_network_interface e dev h =
     (if interfaces e h dev then Inr () else Inl (NetworkInterfaceNotFoundError dev))"

text \<open>
  \<open>IptablesMangleController.clear()\<close>: the oracle says whether any rule was removed;
  the event is recorded.
\<close>

definition IptablesMangleController_clear ::
  "env \<Rightarrow> event list \<Rightarrow> (error + bool) \<times> event list" where
  "IptablesMangleController_clear e h =
     (case faults e h Iptables_clear of
        Some err \<Rightarrow> Inl err
      | None \<Rightarrow> Inr (mangle_removed e h),
      h @ [Iptables_clear])"


definition REGEXP_FILE_EXISTS :: string where
  "REGEXP_FILE_EXISTS = ''RTNETLINK answers: File exists''"

definition EXISTS_MSG_TEMPLATE :: "string \<Rightarrow> string" where
  "EXISTS_MSG_TEMPLATE s =
     s @ '' '' @ ''execute with --overwrite option if you want to overwrite '' @
     ''the existing settings.''"

subsection \<open>Validation of the whole object\<close>

text \<open>
  \<open>validate\<close>. The function \<open>sanitize_network\<close> of the module \<open>_common\<close> is a parameter:
  it gives \<open>None\<close> where it raises \<open>ValueError\<close> and the normalised network otherwise.
\<close>

definition validate ::
  "env \<Rightarrow> (string option \<Rightarrow> string option) \<Rightarrow> traffic_control \<Rightarrow> event list \<Rightarrow>
   error + traffic_control" where
  "validate e sanitize_network tc h =
     (case verify_network_interface e (device tc) h of
        Inl err \<Rightarrow> Inl err
      | Inr _ \<Rightarrow>
     (case validate_netem_parameter tc of
        Inl err \<Rightarrow> Inl err
      | Inr _ \<Rightarrow>
     (case sanitize_network (network tc) of
        None \<Rightarrow> Inl ValueError_invalid_network
      | Some n \<Rightarrow>
     (let tc = tc\<lparr>network := Some n\<rparr>
      in case sanitize_network (src_network tc) of
           None \<Rightarrow> Inl ValueError_invalid_network
         | Some s \<Rightarrow>
        (let tc = tc\<lparr>src_network := Some s\<rparr>
         in case validate_port tc of
              Inl err \<Rightarrow> Inl err
            | Inr _ \<Rightarrow> Inr tc)))))"

subsection \<open>Setting up and tearing down\<close>

definition setup_ifb ::
  "(string \<Rightarrow> 128 word) \<Rightarrow> env \<Rightarrow> traffic_control \<Rightarrow> event list \<Rightarrow> (error + int) \<times> event list" where
  "setup_ifb md5 e tc h =
     (if direction tc \<noteq> INCOMING then (Inr 0, h)
      else if is_empty_string (ifb_device tc) then (Inr (- 1), h)
      else
        let return_code = 0 in
        bind_io (SubprocessRunner_run e (lit ''modprobe ifb'') h) (\<lambda>rc h.
        let return_code = return_code OR rc in
        bind_io (run_command_helper e
                   (lit ''ip link add '' @ lit (ifb_device tc) @ lit '' type ifb'')
                   REGEXP_FILE_EXISTS
                   (EXISTS_MSG_TEMPLATE ''failed to add ip link: ip link already exists.'') h)
          (\<lambda>rc h.
        let return_code = return_code OR rc in
        bind_io (SubprocessRunner_run e
                   (lit ''ip link set dev '' @ lit (ifb_device tc) @ lit '' up'') h) (\<lambda>rc h.
        let return_code = return_code OR rc in
        bind_io (run_command_helper e
                   (lit ''tc qdisc add dev '' @ device tc @ lit '' ingress'')
                   REGEXP_FILE_EXISTS
                   (EXISTS_MSG_TEMPLATE ''failed to add qdisc: ingress qdisc already exists.'') h)
          (\<lambda>rc h.
        let return_code = return_code OR rc in
        case get_device_qdisc_major_id md5 (device tc) of
          Inl err \<Rightarrow> (Inl err, h)
        | Inr major \<Rightarrow>
            let command_list =
                  [lit ''tc filter add'',
                   lit ''dev '' @ device tc,
                   lit ''parent ffff: protocol ip u32 match u32 0 0'',
                   lit ''flowid '' @ lit (format_x major) @ lit '':'',
                   lit ''action mirred egress redirect'',
                   lit ''dev '' @ lit (ifb_device tc)]
            in bind_io (SubprocessRunner_run e (join (lit '' '') command_list) h) (\<lambda>rc h.
               (Inr (return_code OR rc), h)))))))"


text \<open>The list comprehension \<open>[SubprocessRunner(command).run() for command in command_list]\<close>.\<close>

fun run_each :: "env \<Rightarrow> unicode list \<Rightarrow> event list \<Rightarrow> (error + int list) \<times> event list" where
  "run_each e [] h = (Inr [], h)"
| "run_each e (command # commands) h =
     (case SubprocessRunner_run e command h of
        (Inl err, h) \<Rightarrow> (Inl err, h)
      | (Inr rc, h) \<Rightarrow>
          (case run_each e commands h of
             (Inl err, h) \<Rightarrow> (Inl err, h)
           | (Inr rcs, h) \<Rightarrow> (Inr (rc # rcs), h)))"

definition delete_ifb_device :: "env \<Rightarrow> traffic_control \<Rightarrow> event list \<Rightarrow> (error + int) \<times> event list" where
  "delete_ifb_device e tc h =
     (case verify_network_interface e (lit (ifb_device tc)) h of
        Inl err \<Rightarrow> (Inl err, h)
      | Inr _ \<Rightarrow>
          let command_list =
                [lit ''tc qdisc del dev '' @ lit (ifb_device tc) @ lit '' root'',
                 lit ''ip link set dev '' @ lit (ifb_device tc) @ lit '' down'',
                 lit ''ip link delete '' @ lit (ifb_device tc) @ lit '' type ifb'']
          in bind_io (run_each e command_list h) (\<lambda>rcs h.
             if list_all (\<lambda>rc. rc \<noteq> 0) rcs then (Inr 2, h) else (Inr 0, h)))"

text \<open>
  \<open>delete_tc\<close>: the two calls of \<open>run_command_helper\<close> and the call of
  \<open>IptablesMangleController.clear()\<close> are outside the \<open>try\<close>; the \<open>except\<close> clause
  catches \<open>NetworkInterfaceNotFoundError\<close> only; the value of \<open>clear()\<close> is dropped; the
  result is \<open>any(result_list)\<close>.
\<close>

definition delete_tc :: "env \<Rightarrow> traffic_control \<Rightarrow> event list \<Rightarrow> (error + bool) \<times> event list" where
  "delete_tc e tc h =
     (let result_list = [] in
      bind_io (run_command_helper e
                 (lit ''tc qdisc del dev '' @ device tc @ lit '' root'')
                 ''RTNETLINK answers: No such file or directory''
                 ''failed to delete qdisc: no qdisc for outgoing packets'' h) (\<lambda>returncode h.
      let result_list = result_list @ [returncode = 0] in
      bind_io (run_command_helper e
                 (lit ''tc qdisc del dev '' @ device tc @ lit '' ingress'')
                 (join ''|'' [''RTNETLINK answers: Invalid argument'',
                              ''RTNETLINK answers: No such file or directory''])
                 ''failed to delete qdisc: no qdisc for incomming packets'' h) (\<lambda>returncode h.
      let result_list = result_list @ [returncode = 0] in
      bind_io (case delete_ifb_device e tc h of
                 (Inl (NetworkInterfaceNotFoundError d), h) \<Rightarrow> (Inr (result_list @ [False]), h)
               | (Inl err, h) \<Rightarrow> (Inl err, h)
               | (Inr rc, h) \<Rightarrow> (Inr (result_list @ [rc = 0]), h)) (\<lambda>result_list h.
      bind_io (IptablesMangleController_clear e h) (\<lambda>removed h.
      (Inr (list_ex (\<lambda>b. b) result_list), h))))))"

subsection \<open>Example objects and hosts\<close>

text \<open>
  Concrete inputs for the examples below. \<open>digest_table\<close> holds the MD5 digest of the
  bytes \<open>eth0\<close>, \<open>a1a5b3d22e82bbd6f878d26feacc2c7d\<close>, so the major id of \<open>eth0\<close> is
  \<open>0x1a1a = 6682\<close>. \<open>tc_eth0\<close> is the object \<open>TrafficControl("eth0")\<close> with every
  keyword argument at its default. \<open>eth_euro\<close> is a device name that ends with the
  character U+20AC.
\<close>

definition digest_table :: "string \<Rightarrow> 128 word" where
  "digest_table s = (if s = ''eth0'' then 0xa1a5b3d22e82bbd6f878d26feacc2c7d else 0)"

definition rate_absent :: "string option \<Rightarrow> pynum option" where
  "rate_absent s = None"

definition tc_eth0 :: traffic_control where
  "tc_eth0 =
     \<lparr> device = lit ''eth0'', direction = No_direction, bandwidth_rate = None,
       latency_ms = None, latency_distro_ms = None,
       packet_loss_rate = None, corruption_rate = None,
       network = None, src_network = None, port = None,
       is_enable_iptables = True, qdisc_major_id = 6682 \<rparr>"

definition eth_euro :: unicode where
  "eth_euro = lit ''eth'' @ [0x20AC]"

text \<open>
  A host on which nothing is configured for \<open>eth0\<close>: every command exits with status 2,
  the only interface is \<open>eth0\<close>. On \<open>host_clean\<close> no firewall rule is there to remove,
  on \<open>host_marked\<close> clearing the firewall rules removes some. On \<open>host_ok\<close> every command
  succeeds and every interface exists. On \<open>host_broken\<close> the command helper raises when
  it is given the removal of the root qdisc of \<open>eth0\<close>.
\<close>

definition host_clean :: env where
  "host_clean =
     \<lparr> exit_status = (\<lambda>h c. 2), helper_status = (\<lambda>h c p m. 2),
       interfaces = (\<lambda>h d. d = lit ''eth0''), mangle_removed = (\<lambda>h. False),
       faults = no_faults \<rparr>"

definition host_marked :: env where
  "host_marked =
     \<lparr> exit_status = (\<lambda>h c. 2), helper_status = (\<lambda>h c p m. 2),
       interfaces = (\<lambda>h d. d = lit ''eth0''), mangle_removed = (\<lambda>h. True),
       faults = no_faults \<rparr>"

definition host_ok :: env where
  "host_ok =
     \<lparr> exit_status = (\<lambda>h c. 0), helper_status = (\<lambda>h c p m. 0),
       interfaces = (\<lambda>h d. True), mangle_removed = (\<lambda>h. True),
       faults = no_faults \<rparr>"

definition host_broken :: env where
  "host_broken =
     \<lparr> exit_status = (\<lambda>h c. 2), helper_status = (\<lambda>h c p m. 2),
       interfaces = (\<lambda>h d. d = lit ''eth0''), mangle_removed = (\<lambda>h. False),
       faults = (\<lambda>h ev. if ev = Command (lit ''tc qdisc del dev eth0 root'')
                          then Some (Other_exception ''OSError'') else None) \<rparr>"

text \<open>A network sanitizer that accepts every network and turns an absent one into \<open>""\<close>.\<close>

definition sanitize_accepting :: "string option \<Rightarrow> string option" where
  "sanitize_accepting n = (case n of None \<Rightarrow> Some [] | Some s \<Rightarrow> Some s)"

section \<open>Properties\<close>

subsection \<open>Strings and identifiers\<close>



lemma lit_append: "lit (a @ b) = lit a @ lit b"
  by (simp add: lit_def)

lemma lit_eq_iff: "(lit a = lit b) = (a = b)"
  by (simp add: lit_def inj_map_eq_map inj_on_def)

lemma latin1_lit: "latin1 (lit s)"
  by (induction s) (simp_all add: latin1_def lit_def)

lemma six_b_lit: "six_b (lit s) = Inr s"
  by (simp add: six_b_def latin1_lit) (simp add: lit_def comp_def)

lemma hex_value_hex_digit: "n < 16 \<Longrightarrow> hex_value (hex_digit n) = Some n"
  by (auto simp: hex_value_def hex_digit_def Let_def)

lemma nibble_lt: "unat ((w :: 128 word) AND 15) < 16"
proof -
  have "unat (w AND 15) \<le> unat (15 :: 128 word)"
    by (rule word_and_le1 [THEN word_le_nat_alt [THEN iffD1]])
  then show ?thesis by simp
qed

lemma take3_hexdigest:
  "take 3 (hexdigest w) =
     [hex_digit (unat (drop_bit 124 w AND 15)),
      hex_digit (unat (drop_bit 120 w AND 15)),
      hex_digit (unat (drop_bit 116 w AND 15))]"
proof -
  have "take 3 [0..<32] = [0, 1, 2::nat]"
    by (simp add: take_upt upt_rec)
  then show ?thesis
    by (simp add: hexdigest_def take_map)
qed

lemma hex_value_1: "hex_value CHR ''1'' = Some 1"
  by (simp add: hex_value_def)

lemma id_of_digest:
  "int_base16 (''1'' @ take 3 (hexdigest w)) =
     Inr (int (4096 + 256 * unat (drop_bit 124 w AND 15)
                    + 16 * unat (drop_bit 120 w AND 15)
                    + unat (drop_bit 116 w AND 15)))"
  by (simp add: take3_hexdigest int_base16_def hex_value_hex_digit nibble_lt hex_value_1)

lemma nibbles_top12:
  "256 * unat (drop_bit 124 w AND 15) + 16 * unat (drop_bit 120 w AND 15)
     + unat (drop_bit 116 w AND 15) = unat (drop_bit 116 (w :: 128 word))"
proof -
  define y where "y = unat (drop_bit 116 w)"
  have m: "\<And>v :: 128 word. unat (v AND 15) = unat v mod 16"
  proof -
    fix v :: "128 word"
    have "v AND 15 = take_bit 4 v"
      by (simp add: take_bit_eq_mask mask_eq_exp_minus_1)
    then show "unat (v AND 15) = unat v mod 16"
      by (simp add: take_bit_eq_mod unat_mod)
  qed
  have y_eq: "y = unat w div 2 ^ 116"
    by (simp add: y_def drop_bit_eq_div unat_div)
  have "unat w < 2 ^ 128" using unsigned_less [of w] by simp
  then have ylt: "y < 4096"
    unfolding y_eq by simp
  have "unat (drop_bit 120 w) = unat w div 2 ^ 120"
    by (simp add: drop_bit_eq_div unat_div)
  then have a: "unat (drop_bit 120 w) = y div 16"
    unfolding y_eq by simp
  have "unat (drop_bit 124 w) = unat w div 2 ^ 124"
    by (simp add: drop_bit_eq_div unat_div)
  then have b: "unat (drop_bit 124 w) = y div 256"
    unfolding y_eq by simp
  have c: "y mod 256 = 16 * (y div 16 mod 16) + y mod 16"
    using mod_mult2_eq [of y 16 16] by simp
  have "y div 256 < 16"
    using ylt by (simp add: less_mult_imp_div_less)
  then have d: "(y div 256) mod 16 = y div 256"
    by simp
  have "256 * ((y div 256) mod 16) + 16 * ((y div 16) mod 16) + y mod 16 = y"
    using c d div_mult_mod_eq [of y 256] by linarith
  then show ?thesis
    by (simp add: m a b d flip: y_def)
qed

lemma id_of_digest_top12:
  "int_base16 (''1'' @ take 3 (hexdigest w)) = Inr (4096 + int (unat (drop_bit 116 w)))"
proof -
  have "4096 + 256 * unat (drop_bit 124 w AND 15)
             + 16 * unat (drop_bit 120 w AND 15)
             + unat (drop_bit 116 w AND 15)
        = 4096 + unat (drop_bit 116 w)"
    using nibbles_top12 [of w] by linarith
  then show ?thesis
    by (simp only: id_of_digest) simp
qed

lemma get_id_latin1:
  "latin1 dev \<Longrightarrow>
   get_device_qdisc_major_id md5 dev =
     Inr (4096 + int (unat (drop_bit 116 (md5 (map char_of dev)))))"
  using id_of_digest_top12 [of "md5 (map char_of dev)"]
  by (simp add: get_device_qdisc_major_id_def six_b_def Let_def)

lemma get_id_not_latin1:
  "\<not> latin1 dev \<Longrightarrow> get_device_qdisc_major_id md5 dev = Inl UnicodeEncodeError"
  by (simp add: get_device_qdisc_major_id_def six_b_def)

lemma get_id_lit:
  "get_device_qdisc_major_id md5 (lit s) = Inr (4096 + int (unat (drop_bit 116 (md5 s))))"
  using id_of_digest_top12 [of "md5 s"]
  by (simp add: get_device_qdisc_major_id_def six_b_lit Let_def)

lemma top12_bound: "uint (drop_bit 116 (w :: 128 word)) < 4096"
proof -
  have "uint w < 2 ^ 128" using uint_lt2p [of w] by simp
  then show ?thesis
    by (simp add: drop_bit_eq_div uint_div)
qed

lemma ifb_device_not_empty: "\<not> is_empty_string (ifb_device tc)"
  by (simp add: is_empty_string_def ifb_device_def is_space_def)

lemma get_netem_cases:
  "get_netem_qdisc_major_id tc b =
     (case direction tc of OUTGOING \<Rightarrow> Inr (b + 10) | INCOMING \<Rightarrow> Inr (b + 11)
      | _ \<Rightarrow> Inl UnboundLocalError)"
  by (simp add: get_netem_qdisc_major_id_def NETEM_QDISC_MAJOR_ID_OFFSET_def
        split: traffic_direction.splits)

lemma hex_digit_numerals:
  "hex_digit 0 = CHR ''0''" "hex_digit 1 = CHR ''1''" "hex_digit 2 = CHR ''2''"
  "hex_digit 3 = CHR ''3''" "hex_digit 4 = CHR ''4''" "hex_digit 5 = CHR ''5''"
  "hex_digit 6 = CHR ''6''" "hex_digit 7 = CHR ''7''" "hex_digit 8 = CHR ''8''"
  "hex_digit 9 = CHR ''9''" "hex_digit 10 = CHR ''a''" "hex_digit 11 = CHR ''b''"
  "hex_digit 12 = CHR ''c''" "hex_digit 13 = CHR ''d''" "hex_digit 14 = CHR ''e''"
  "hex_digit 15 = CHR ''f''"
  by code_simp+

lemma hex_digit_Suc0: "hex_digit (Suc 0) = CHR ''1''"
  unfolding One_nat_def [symmetric] by (rule hex_digit_numerals)

lemma format_d_6682: "format_d 6682 = ''6682''"
  by (simp add: format_d_def dec_str.simps hex_digit_numerals hex_digit_Suc0)


lemma major_id_eth0: "get_device_qdisc_major_id digest_table (lit ''eth0'') = Inr 6682"
  by (simp add: get_id_lit digest_table_def drop_bit_eq_div unat_div)

lemma eth_euro_not_latin1: "\<not> latin1 eth_euro"
  by (simp add: eth_euro_def latin1_def)

lemma init_latin1:
  "latin1 dev \<Longrightarrow>
   init md5 hr dev dir bw lat distro loss corr net prt src ipt =
     Inr \<lparr> device = dev, direction = dir, bandwidth_rate = hr bw,
           latency_ms = lat, latency_distro_ms = distro,
           packet_loss_rate = loss, corruption_rate = corr,
           network = net, src_network = src, port = prt,
           is_enable_iptables = ipt,
           qdisc_major_id = 4096 + int (unat (drop_bit 116 (md5 (map char_of dev)))) \<rparr>"
  by (simp add: init_def get_id_latin1)

lemma init_same_major:
  "init md5 hr dev dir bw lat distro loss corr net prt src ipt = Inr tc \<Longrightarrow>
   get_device_qdisc_major_id md5 dev = Inr (qdisc_major_id tc) \<and> direction tc = dir
   \<and> device tc = dev"
  by (auto simp: init_def split: sum.splits)

lemma get_tc_device_cases:
  "get_tc_device tc =
     (case direction tc of
        OUTGOING \<Rightarrow> Inr (device tc)
      | INCOMING \<Rightarrow> Inr (lit (''ifb'' @ format_d (qdisc_major_id tc)))
      | Other_direction s \<Rightarrow> Inl (ValueError_unknown_direction s)
      | No_direction \<Rightarrow> Inl TypeError)"
  by (simp add: get_tc_device_def ifb_device_def split: traffic_direction.splits)

subsection \<open>Qdisc identifiers\<close>

text \<open>
  Claim C1. The netem qdisc identifier is a function of the base id and the direction:
  it is the base id plus the offset 10 plus 0 for OUTGOING and plus 1 for INCOMING. For two
  objects made for the same device, whatever their other arguments, the identifier for
  INCOMING is the identifier for OUTGOING plus one; the two objects exist for every device
  name that the constructor can encode.
\<close>

theorem netem_qdisc_major_id_incoming_is_outgoing_plus_one:
  "get_netem_qdisc_major_id (tc\<lparr>direction := OUTGOING\<rparr>) base_id = Inr (base_id + 10 + 0)
   \<and> get_netem_qdisc_major_id (tc\<lparr>direction := INCOMING\<rparr>) base_id = Inr (base_id + 10 + 1)
   \<and> (init md5 hr dev OUTGOING bw lat distro loss corr net prt src ipt = Inr tcO
       \<and> init md5 hr dev INCOMING bw' lat' distro' loss' corr' net' prt' src' ipt' = Inr tcI
      \<longrightarrow> (\<exists>n. get_netem_qdisc_major_id tcO (qdisc_major_id tcO) = Inr n
              \<and> get_netem_qdisc_major_id tcI (qdisc_major_id tcI) = Inr (n + 1)))
   \<and> (latin1 dev
      \<longrightarrow> (\<exists>tcO tcI n.
             init md5 hr dev OUTGOING bw lat distro loss corr net prt src ipt = Inr tcO
           \<and> init md5 hr dev INCOMING bw' lat' distro' loss' corr' net' prt' src' ipt' = Inr tcI
           \<and> get_netem_qdisc_major_id tcO (qdisc_major_id tcO) = Inr n
           \<and> get_netem_qdisc_major_id tcI (qdisc_major_id tcI) = Inr (n + 1)))"
proof -
  have a: "get_netem_qdisc_major_id (tc\<lparr>direction := OUTGOING\<rparr>) base_id = Inr (base_id + 10 + 0)"
    by (simp add: get_netem_cases)
  have b: "get_netem_qdisc_major_id (tc\<lparr>direction := INCOMING\<rparr>) base_id = Inr (base_id + 10 + 1)"
    by (simp add: get_netem_cases)
  have c: "\<exists>n. get_netem_qdisc_major_id tcO (qdisc_major_id tcO) = Inr n
              \<and> get_netem_qdisc_major_id tcI (qdisc_major_id tcI) = Inr (n + 1)"
    if "init md5 hr dev OUTGOING bw lat distro loss corr net prt src ipt = Inr tcO"
      and "init md5 hr dev INCOMING bw' lat' distro' loss' corr' net' prt' src' ipt' = Inr tcI"
    using init_same_major [OF that(1)] init_same_major [OF that(2)]
    by (simp add: get_netem_cases)
  have d: "\<exists>tcO tcI n.
             init md5 hr dev OUTGOING bw lat distro loss corr net prt src ipt = Inr tcO
           \<and> init md5 hr dev INCOMING bw' lat' distro' loss' corr' net' prt' src' ipt' = Inr tcI
           \<and> get_netem_qdisc_major_id tcO (qdisc_major_id tcO) = Inr n
           \<and> get_netem_qdisc_major_id tcI (qdisc_major_id tcI) = Inr (n + 1)"
    if "latin1 dev"
    using that by (simp add: init_latin1 get_netem_cases)
  from a b c d show ?thesis by blast
qed

theorem netem_qdisc_major_id_incoming_is_outgoing_plus_one_witness:
  "latin1 (lit ''eth0'')
   \<and> init digest_table rate_absent (lit ''eth0'') OUTGOING
        None None None None None None None None True = Inr (tc_eth0\<lparr>direction := OUTGOING\<rparr>)
   \<and> init digest_table rate_absent (lit ''eth0'') INCOMING
        None None None None None None None None True = Inr (tc_eth0\<lparr>direction := INCOMING\<rparr>)
   \<and> get_netem_qdisc_major_id (tc_eth0\<lparr>direction := OUTGOING\<rparr>) 6682 = Inr 6692
   \<and> get_netem_qdisc_major_id (tc_eth0\<lparr>direction := INCOMING\<rparr>) 6682 = Inr 6693"
proof -
  have o: "init digest_table rate_absent (lit ''eth0'') OUTGOING
        None None None None None None None None True = Inr (tc_eth0\<lparr>direction := OUTGOING\<rparr>)"
    using major_id_eth0 by (simp add: init_def tc_eth0_def rate_absent_def)
  have i: "init digest_table rate_absent (lit ''eth0'') INCOMING
        None None None None None None None None True = Inr (tc_eth0\<lparr>direction := INCOMING\<rparr>)"
    using major_id_eth0 by (simp add: init_def tc_eth0_def rate_absent_def)
  have q: "qdisc_major_id tc_eth0 = 6682"
    by (simp add: tc_eth0_def)
  show ?thesis
    using netem_qdisc_major_id_incoming_is_outgoing_plus_one
            [of tc_eth0 6682 digest_table rate_absent "lit ''eth0''"
                None None None None None None None None True
                "tc_eth0\<lparr>direction := OUTGOING\<rparr>"
                None None None None None None None None True
                "tc_eth0\<lparr>direction := INCOMING\<rparr>"]
      o i latin1_lit [of "''eth0''"]
    by (auto simp: q)
qed

text \<open>
  Claim C8, as stated, fails: for the device name \<open>eth\<close> followed by U+20AC the encoding
  of the name raises \<open>UnicodeEncodeError\<close>, and the derivation of the base id fails.
\<close>

theorem device_qdisc_major_id_fails_beyond_latin1:
  "get_device_qdisc_major_id digest_table eth_euro = Inl UnicodeEncodeError"
  by (simp add: get_id_not_latin1 eth_euro_not_latin1)

text \<open>
  Claim C8, amended. For every device name whose characters all lie in U+0000 to U+00FF,
  and every digest function, the base qdisc identifier never fails: it is the digit 1
  followed by the first three hexadecimal digits of the digest of the encoded name, read
  in base 16, that is \<open>0x1000\<close> plus the twelve leading bits of the digest. It lies in
  \<open>[0x1000, 0x1fff]\<close> and is not zero. For a name with a character beyond U+00FF the
  derivation raises \<open>UnicodeEncodeError\<close>.
\<close>

theorem device_qdisc_major_id_total_on_latin1:
  "(latin1 dev \<longrightarrow>
      (\<exists>n. get_device_qdisc_major_id md5 dev = Inr n
          \<and> 0x1000 \<le> n \<and> n \<le> 0x1fff \<and> n \<noteq> 0
          \<and> n = 0x1000 + int (unat (drop_bit 116 (md5 (map char_of dev))))
          \<and> length (take 3 (hexdigest (md5 (map char_of dev)))) = 3))
   \<and> (\<not> latin1 dev \<longrightarrow> get_device_qdisc_major_id md5 dev = Inl UnicodeEncodeError)"
proof -
  have "uint (drop_bit 116 (md5 (map char_of dev))) < 4096"
    by (rule top12_bound)
  moreover have "4096 + uint (drop_bit 116 (md5 (map char_of dev))) \<noteq> 0"
    using uint_ge_0 [of "drop_bit 116 (md5 (map char_of dev))"] by linarith
  ultimately show ?thesis
    by (simp add: get_id_latin1 get_id_not_latin1 take3_hexdigest)
qed

theorem device_qdisc_major_id_total_on_latin1_witness:
  "latin1 (lit ''eth0'')
   \<and> get_device_qdisc_major_id digest_table (lit ''eth0'') = Inr 6682
   \<and> \<not> latin1 eth_euro
   \<and> get_device_qdisc_major_id digest_table eth_euro = Inl UnicodeEncodeError"
  using device_qdisc_major_id_total_on_latin1 [of "lit ''eth0''" digest_table]
    device_qdisc_major_id_total_on_latin1 [of eth_euro digest_table]
    major_id_eth0 latin1_lit [of "''eth0''"] eth_euro_not_latin1
  by simp

text \<open>
  Claim C10. For every direction other than OUTGOING and INCOMING the netem identifier
  fails with the error of a local variable read before its assignment, also where
  \<open>get_tc_device\<close> raises the unknown-direction error.
\<close>

theorem netem_qdisc_major_id_unknown_direction:
  "direction tc \<noteq> OUTGOING \<Longrightarrow> direction tc \<noteq> INCOMING \<Longrightarrow>
     get_netem_qdisc_major_id tc base_id = Inl UnboundLocalError
     \<and> (\<forall>s. direction tc = Other_direction s \<longrightarrow>
            get_tc_device tc = Inl (ValueError_unknown_direction s))"
  by (auto simp: get_netem_cases get_tc_device_def split: traffic_direction.splits)

theorem netem_qdisc_major_id_unknown_direction_witness:
  "direction (tc_eth0\<lparr>direction := Other_direction ''both''\<rparr>) \<noteq> OUTGOING
   \<and> direction (tc_eth0\<lparr>direction := Other_direction ''both''\<rparr>) \<noteq> INCOMING
   \<and> get_netem_qdisc_major_id (tc_eth0\<lparr>direction := Other_direction ''both''\<rparr>) 6682
       = Inl UnboundLocalError
   \<and> get_tc_device (tc_eth0\<lparr>direction := Other_direction ''both''\<rparr>)
       = Inl (ValueError_unknown_direction ''both'')"
  using netem_qdisc_major_id_unknown_direction
          [of "tc_eth0\<lparr>direction := Other_direction ''both''\<rparr>" 6682]
  by simp

subsection \<open>Target device\<close>

text \<open>
  Claim C9. For a direction that is neither OUTGOING nor INCOMING the target device
  resolution is meant to raise the unknown-direction error. For the object
  \<open>TrafficControl("eth0")\<close>, whose direction is the constructor's default \<open>None\<close>, building
  the message of that error fails, and the method raises \<open>TypeError\<close> instead.
\<close>

theorem get_tc_device_default_direction:
  "init digest_table rate_absent (lit ''eth0'') No_direction
     None None None None None None None None True
     = Inr tc_eth0
   \<and> get_tc_device tc_eth0 = Inl TypeError"
  using major_id_eth0
  by (simp add: init_def tc_eth0_def rate_absent_def get_tc_device_cases)

lemma run_returning:
  "SubprocessRunner_run (returning e) c h = (Inr (exit_status e h c), h @ [Command c])"
  by (simp add: SubprocessRunner_run_def returning_def no_faults_def)

lemma helper_returning:
  "run_command_helper (returning e) c p m h = (Inr (helper_status e h c p m), h @ [Command c])"
  by (simp add: run_command_helper_def returning_def no_faults_def)

lemma clear_returning:
  "IptablesMangleController_clear (returning e) h = (Inr (mangle_removed e h), h @ [Iptables_clear])"
  by (simp add: IptablesMangleController_clear_def returning_def no_faults_def)


lemma verify_returning:
  "verify_network_interface (returning e) d h = verify_network_interface e d h"
  by (simp add: verify_network_interface_def returning_def)

lemma bind_io_Inr: "bind_io (Inr x, h) f = f x h"
  by (simp add: bind_io_def)

lemma bind_io_Inl: "bind_io (Inl err, h) f = (Inl err, h)"
  by (simp add: bind_io_def)



lemma setup_ifb_incoming_not_latin1:
  assumes "direction tc = INCOMING"
    and "get_device_qdisc_major_id md5 (device tc) = Inl err"
  shows "setup_ifb md5 (returning e) tc h =
     (Inl err,
      h @ [Command (lit ''modprobe ifb''),
           Command (lit ''ip link add '' @ lit (ifb_device tc) @ lit '' type ifb''),
           Command (lit ''ip link set dev '' @ lit (ifb_device tc) @ lit '' up''),
           Command (lit ''tc qdisc add dev '' @ device tc @ lit '' ingress'')])"
  using assms
  by (simp add: setup_ifb_def ifb_device_not_empty run_returning helper_returning
        bind_io_Inr Let_def)


subsection \<open>Configuring\<close>



lemma delete_ifb_device_returning:
  "delete_ifb_device (returning e) tc h =
     (if interfaces e h (lit (ifb_device tc)) then
        (let c1 = lit ''tc qdisc del dev '' @ lit (ifb_device tc) @ lit '' root'';
             c2 = lit ''ip link set dev '' @ lit (ifb_device tc) @ lit '' down'';
             c3 = lit ''ip link delete '' @ lit (ifb_device tc) @ lit '' type ifb''
         in (Inr (if exit_status e h c1 \<noteq> 0
                     \<and> exit_status e (h @ [Command c1]) c2 \<noteq> 0
                     \<and> exit_status e (h @ [Command c1, Command c2]) c3 \<noteq> 0 then 2 else 0),
             h @ [Command c1, Command c2, Command c3]))
      else (Inl (NetworkInterfaceNotFoundError (lit (ifb_device tc))), h))"
  by (simp add: delete_ifb_device_def verify_network_interface_def run_returning
        bind_io_Inr Let_def) (simp add: returning_def)

lemma delete_tc_returning:
  "delete_tc (returning e) tc h =
     (let root = lit ''tc qdisc del dev '' @ device tc @ lit '' root'';
          ingress = lit ''tc qdisc del dev '' @ device tc @ lit '' ingress'';
          h2 = h @ [Command root, Command ingress];
          c1 = lit ''tc qdisc del dev '' @ lit (ifb_device tc) @ lit '' root'';
          c2 = lit ''ip link set dev '' @ lit (ifb_device tc) @ lit '' down'';
          c3 = lit ''ip link delete '' @ lit (ifb_device tc) @ lit '' type ifb'';
          root_ok = (helper_status e h root
                       ''RTNETLINK answers: No such file or directory''
                       ''failed to delete qdisc: no qdisc for outgoing packets'' = 0);
          ingress_ok = (helper_status e (h @ [Command root]) ingress
                       ''RTNETLINK answers: Invalid argument|RTNETLINK answers: No such file or directory''
                       ''failed to delete qdisc: no qdisc for incomming packets'' = 0)
      in if interfaces e h2 (lit (ifb_device tc))
         then (Inr (root_ok \<or> ingress_ok
                    \<or> exit_status e h2 c1 = 0
                    \<or> exit_status e (h2 @ [Command c1]) c2 = 0
                    \<or> exit_status e (h2 @ [Command c1, Command c2]) c3 = 0),
               h2 @ [Command c1, Command c2, Command c3, Iptables_clear])
         else (Inr (root_ok \<or> ingress_ok), h2 @ [Iptables_clear]))"
  by (simp add: delete_tc_def delete_ifb_device_returning helper_returning clear_returning
        bind_io_Inr Let_def)

lemma ifb_device_eth0: "ifb_device tc_eth0 = ''ifb6682''"
  by (simp add: ifb_device_def tc_eth0_def format_d_6682)

lemma device_eth0: "device tc_eth0 = lit ''eth0''"
  by (simp add: tc_eth0_def)

lemma returning_no_faults: "faults e = no_faults \<Longrightarrow> returning e = e"
  by (simp add: returning_def)

lemma returning_hosts:
  "returning host_clean = host_clean" "returning host_marked = host_marked"
  "returning host_ok = host_ok"
  by (simp_all add: returning_no_faults host_clean_def host_marked_def host_ok_def)

subsection \<open>Tearing down\<close>



text \<open>
  Claim C6, as stated, fails: the two calls of the command helper and the clearing of the
  firewall rules are outside the \<open>try\<close>. On a host where the command helper raises for
  the removal of the root qdisc of \<open>eth0\<close>, \<open>delete_tc\<close> raises that exception, and no
  further step is attempted.
\<close>

theorem delete_tc_propagates_collaborator_exception:
  "delete_tc host_broken tc_eth0 [] =
     (Inl (Other_exception ''OSError''), [Command (lit ''tc qdisc del dev eth0 root'')])"
  by (simp add: delete_tc_def run_command_helper_def host_broken_def device_eth0 bind_io_Inl
        Let_def flip: lit_append)

text \<open>
  Claim C6, amended. On a host whose collaborators return, reporting a failure as an exit
  status, \<open>delete_tc\<close> never raises, from any history, so a second call right after the
  first does not raise either. Its events are exactly: the removal of the root qdisc, the
  removal of the ingress qdisc, then, when the ifb device exists, its three removal
  commands, all three whatever their exit statuses, and none when the ifb device does
  not exist, the error of the interface check being caught; then the clearing of the
  firewall rules. No step depends on the exit status of a step before it. On a host where
  nothing is configured (every removal fails, no ifb device) the result is \<open>False\<close>, for
  the first call and for the second.
\<close>

theorem delete_tc_tolerates_failed_steps:
  "delete_tc (returning e) tc h =
     (let root = lit ''tc qdisc del dev '' @ device tc @ lit '' root'';
          ingress = lit ''tc qdisc del dev '' @ device tc @ lit '' ingress'';
          h2 = h @ [Command root, Command ingress];
          c1 = lit ''tc qdisc del dev '' @ lit (ifb_device tc) @ lit '' root'';
          c2 = lit ''ip link set dev '' @ lit (ifb_device tc) @ lit '' down'';
          c3 = lit ''ip link delete '' @ lit (ifb_device tc) @ lit '' type ifb''
      in (Inr (helper_status e h root
                 ''RTNETLINK answers: No such file or directory''
                 ''failed to delete qdisc: no qdisc for outgoing packets'' = 0
               \<or> helper_status e (h @ [Command root]) ingress
                 ''RTNETLINK answers: Invalid argument|RTNETLINK answers: No such file or directory''
                 ''failed to delete qdisc: no qdisc for incomming packets'' = 0
               \<or> (interfaces e h2 (lit (ifb_device tc))
                  \<and> (exit_status e h2 c1 = 0
                     \<or> exit_status e (h2 @ [Command c1]) c2 = 0
                     \<or> exit_status e (h2 @ [Command c1, Command c2]) c3 = 0))),
          h2 @ (if interfaces e h2 (lit (ifb_device tc))
                then [Command c1, Command c2, Command c3] else [])
             @ [Iptables_clear]))
   \<and> (\<exists>b. fst (delete_tc (returning e) tc (snd (delete_tc (returning e) tc h))) = Inr b)
   \<and> ((\<forall>h' c p m. helper_status e h' c p m \<noteq> 0) \<and> (\<forall>h'. \<not> interfaces e h' (lit (ifb_device tc)))
        \<longrightarrow> delete_tc (returning e) tc h =
              (Inr False,
               h @ [Command (lit ''tc qdisc del dev '' @ device tc @ lit '' root''),
                    Command (lit ''tc qdisc del dev '' @ device tc @ lit '' ingress''),
                    Iptables_clear])
            \<and> fst (delete_tc (returning e) tc (snd (delete_tc (returning e) tc h))) = Inr False)"
proof -
  have ret: "\<exists>b. fst (delete_tc (returning e) tc k) = Inr b" for k
    by (simp add: delete_tc_returning Let_def)
  have clean: "delete_tc (returning e) tc k =
              (Inr False,
               k @ [Command (lit ''tc qdisc del dev '' @ device tc @ lit '' root''),
                    Command (lit ''tc qdisc del dev '' @ device tc @ lit '' ingress''),
                    Iptables_clear])"
    if "\<forall>h' c p m. helper_status e h' c p m \<noteq> 0"
      and "\<forall>h'. \<not> interfaces e h' (lit (ifb_device tc))"
    for k
    using that by (simp add: delete_tc_returning Let_def)
  have eq: "delete_tc (returning e) tc h =
     (let root = lit ''tc qdisc del dev '' @ device tc @ lit '' root'';
          ingress = lit ''tc qdisc del dev '' @ device tc @ lit '' ingress'';
          h2 = h @ [Command root, Command ingress];
          c1 = lit ''tc qdisc del dev '' @ lit (ifb_device tc) @ lit '' root'';
          c2 = lit ''ip link set dev '' @ lit (ifb_device tc) @ lit '' down'';
          c3 = lit ''ip link delete '' @ lit (ifb_device tc) @ lit '' type ifb''
      in (Inr (helper_status e h root
                 ''RTNETLINK answers: No such file or directory''
                 ''failed to delete qdisc: no qdisc for outgoing packets'' = 0
               \<or> helper_status e (h @ [Command root]) ingress
                 ''RTNETLINK answers: Invalid argument|RTNETLINK answers: No such file or directory''
                 ''failed to delete qdisc: no qdisc for incomming packets'' = 0
               \<or> (interfaces e h2 (lit (ifb_device tc))
                  \<and> (exit_status e h2 c1 = 0
                     \<or> exit_status e (h2 @ [Command c1]) c2 = 0
                     \<or> exit_status e (h2 @ [Command c1, Command c2]) c3 = 0))),
          h2 @ (if interfaces e h2 (lit (ifb_device tc))
                then [Command c1, Command c2, Command c3] else [])
             @ [Iptables_clear]))"
    by (simp add: delete_tc_returning Let_def)
  show ?thesis
    using ret [of "snd (delete_tc (returning e) tc h)"] clean eq
    by (metis fst_conv)
qed

theorem delete_tc_tolerates_failed_steps_witness:
  "(\<forall>h' c p m. helper_status host_clean h' c p m \<noteq> 0)
   \<and> (\<forall>h'. \<not> interfaces host_clean h' (lit (ifb_device tc_eth0)))
   \<and> delete_tc host_clean tc_eth0 [] =
       (Inr False,
        [Command (lit ''tc qdisc del dev eth0 root''),
         Command (lit ''tc qdisc del dev eth0 ingress''),
         Iptables_clear])
   \<and> fst (delete_tc host_clean tc_eth0 (snd (delete_tc host_clean tc_eth0 []))) = Inr False"
proof -
  have a: "\<forall>h' c p m. helper_status host_clean h' c p m \<noteq> 0"
    by (simp add: host_clean_def)
  have b: "\<forall>h'. \<not> interfaces host_clean h' (lit (ifb_device tc_eth0))"
    by (simp add: host_clean_def ifb_device_eth0 lit_eq_iff)
  have c: "delete_tc host_clean tc_eth0 [] =
       (Inr False,
        [Command (lit ''tc qdisc del dev eth0 root''),
         Command (lit ''tc qdisc del dev eth0 ingress''),
         Iptables_clear])"
    using delete_tc_tolerates_failed_steps [of host_clean tc_eth0 "[]"] a b
    unfolding returning_hosts
    by (simp add: device_eth0 flip: lit_append)
  have d: "fst (delete_tc host_clean tc_eth0 (snd (delete_tc host_clean tc_eth0 []))) = Inr False"
    using delete_tc_tolerates_failed_steps [of host_clean tc_eth0 "[]"] a b
    unfolding returning_hosts
    by blast
  from a b c d show ?thesis
    by blast
qed

text \<open>The teardown of \<open>eth0\<close> on a host where every command succeeds.\<close>

lemma delete_tc_after_incoming_eth0:
  "delete_tc host_ok (tc_eth0\<lparr>direction := INCOMING\<rparr>) [] =
     (Inr True,
      [Command (lit ''tc qdisc del dev eth0 root''),
       Command (lit ''tc qdisc del dev eth0 ingress''),
       Command (lit ''tc qdisc del dev ifb6682 root''),
       Command (lit ''ip link set dev ifb6682 down''),
       Command (lit ''ip link delete ifb6682 type ifb''),
       Iptables_clear])"
proof -
  have "delete_tc (returning host_ok) (tc_eth0\<lparr>direction := INCOMING\<rparr>) [] =
     (Inr True,
      [Command (lit ''tc qdisc del dev eth0 root''),
       Command (lit ''tc qdisc del dev eth0 ingress''),
       Command (lit ''tc qdisc del dev ifb6682 root''),
       Command (lit ''ip link set dev ifb6682 down''),
       Command (lit ''ip link delete ifb6682 type ifb''),
       Iptables_clear])"
    by (simp add: delete_tc_returning Let_def host_ok_def ifb_device_def tc_eth0_def
          format_d_6682 flip: lit_append)
  then show ?thesis
    by (simp add: returning_hosts)
qed

lemma within_min_max_None: "validate_within_min_max name None lo hi = Inr ()"
  by (simp add: validate_within_min_max_def)

lemma within_min_max_int:
  "validate_within_min_max name (Some (PyInt i)) lo hi =
     (if i > hi then
        (if \<bar>i\<bar> \<ge> 2 ^ 1024 - 2 ^ 970 then Inl OverflowError
         else Inl (ValueError_too_high name hi (PyInt i)))
      else if i < lo then
        (if \<bar>i\<bar> \<ge> 2 ^ 1024 - 2 ^ 970 then Inl OverflowError
         else Inl (ValueError_too_low name lo (PyInt i)))
      else Inr ())"
  by (simp add: validate_within_min_max_def)

lemma within_min_max_finite:
  "validate_within_min_max name (Some (PyFloat (Finite r))) lo hi =
     (if r > of_int hi then Inl (ValueError_too_high name hi (PyFloat (Finite r)))
      else if r < of_int lo then Inl (ValueError_too_low name lo (PyFloat (Finite r)))
      else Inr ())"
  by (simp add: validate_within_min_max_def)

lemma within_min_max_inf:
  "validate_within_min_max name (Some (PyFloat PosInf)) lo hi =
     Inl (ValueError_too_high name hi (PyFloat PosInf))"
  "validate_within_min_max name (Some (PyFloat NegInf)) lo hi =
     Inl (ValueError_too_low name lo (PyFloat NegInf))"
  by (simp_all add: validate_within_min_max_def)

lemma within_min_max_nan:
  "validate_within_min_max name (Some (PyFloat NaN)) lo hi = Inr ()"
  by (simp add: validate_within_min_max_def)

lemmas within_min_max_simps =
  within_min_max_None within_min_max_int within_min_max_finite within_min_max_inf
  within_min_max_nan

lemmas validator_defs =
  validate_packet_loss_rate_def validate_corruption_rate_def validate_network_delay_def
  validate_port_def MIN_PACKET_LOSS_RATE_def MAX_PACKET_LOSS_RATE_def
  MIN_CORRUPTION_RATE_def MAX_CORRUPTION_RATE_def MIN_LATENCY_MS_def MAX_LATENCY_MS_def
  MIN_PORT_def MAX_PORT_def

subsection \<open>Validation\<close>



lemma validate_bandwidth_rate_cases:
  "validate_bandwidth_rate tc =
     (case bandwidth_rate tc of
        None \<Rightarrow> Inl EmptyParameterError
      | Some r \<Rightarrow> if py_le r 0 then Inl (InvalidParameterError r) else Inr ())"
  by (simp add: validate_bandwidth_rate_def FloatType_is_type_def split: option.splits)

lemma within_min_max_not_empty:
  "validate_within_min_max name val lo hi \<noteq> Inl EmptyParameterError"
  by (simp add: validate_within_min_max_def split: option.splits)

lemma seq_not_error:
  "x \<noteq> Inl err \<Longrightarrow> y \<noteq> Inl err \<Longrightarrow>
     (case x of Inl e \<Rightarrow> Inl e | Inr (u :: unit) \<Rightarrow> y) \<noteq> Inl err"
  by (cases x) auto

lemma catch_empty_parameter:
  "(case validate_bandwidth_rate tc of Inl EmptyParameterError \<Rightarrow> Inr () | r \<Rightarrow> r) =
     (case bandwidth_rate tc of
        None \<Rightarrow> Inr ()
      | Some r \<Rightarrow> if py_le r 0 then Inl (InvalidParameterError r) else Inr ())"
  by (simp add: validate_bandwidth_rate_cases split: option.splits)

lemma validate_netem_parameter_not_empty:
  "validate_netem_parameter tc \<noteq> Inl EmptyParameterError"
proof -
  have a: "(case bandwidth_rate tc of
              None \<Rightarrow> Inr ()
            | Some r \<Rightarrow> if py_le r 0 then Inl (InvalidParameterError r) else Inr ())
           \<noteq> Inl EmptyParameterError"
    by (simp split: option.splits)
  have b: "validate_network_delay tc \<noteq> Inl EmptyParameterError"
    unfolding validate_network_delay_def
    by (intro seq_not_error within_min_max_not_empty)
  show ?thesis
    unfolding validate_netem_parameter_def catch_empty_parameter
      validate_packet_loss_rate_def validate_corruption_rate_def
    by (intro seq_not_error a b within_min_max_not_empty) (simp add: Let_def)
qed

lemma validate_not_empty:
  "validate e sanitize_network tc h \<noteq> Inl EmptyParameterError"
proof (cases "validate_netem_parameter tc")
  case (Inl err)
  then have "err \<noteq> EmptyParameterError"
    using validate_netem_parameter_not_empty [of tc] by auto
  with Inl show ?thesis
    by (simp add: validate_def verify_network_interface_def)
next
  case (Inr u)
  have "(case validate_port t of Inl err \<Rightarrow> Inl err | Inr _ \<Rightarrow> Inr t)
          \<noteq> Inl EmptyParameterError" for t
    using within_min_max_not_empty [of "''port''" "port t" MIN_PORT MAX_PORT]
    by (cases "validate_port t") (auto simp: validate_port_def)
  with Inr show ?thesis
    by (simp add: validate_def verify_network_interface_def Let_def split: option.split)
qed

text \<open>
  Claim C4, as stated, fails: the object for \<open>eth0\<close> with a bandwidth rate of 0 and the
  three other rate parameters absent has all four rate-affecting fields absent or zero,
  and its validation fails with \<open>InvalidParameterError\<close> ("rate must be greater than
  zero"), not with the error of a configuration without effect.
\<close>

theorem zero_rate_is_invalid_parameter:
  "bandwidth_rate (tc_eth0\<lparr>bandwidth_rate := Some (PyFloat (Finite 0))\<rparr>)
     = Some (PyFloat (Finite 0))
   \<and> latency_ms (tc_eth0\<lparr>bandwidth_rate := Some (PyFloat (Finite 0))\<rparr>) = None
   \<and> packet_loss_rate (tc_eth0\<lparr>bandwidth_rate := Some (PyFloat (Finite 0))\<rparr>) = None
   \<and> corruption_rate (tc_eth0\<lparr>bandwidth_rate := Some (PyFloat (Finite 0))\<rparr>) = None
   \<and> validate_netem_parameter (tc_eth0\<lparr>bandwidth_rate := Some (PyFloat (Finite 0))\<rparr>)
       = Inl (InvalidParameterError (PyFloat (Finite 0)))"
  by (simp add: tc_eth0_def validate_netem_parameter_def validate_bandwidth_rate_cases)

text \<open>
  Claim C4, amended. When the bandwidth rate, the latency, the packet loss rate and the
  corruption rate are each absent or zero, validation of the netem parameters always
  fails. It fails with the error "there is no valid net emulation parameter" when the
  bandwidth rate is absent and the latency distribution passes its own check (it is
  absent, within \<open>[0, 10000]\<close>, or NaN); a bandwidth rate that is present and zero is
  rejected before, by the check of \<open>validate_bandwidth_rate\<close>, with
  \<open>InvalidParameterError\<close>.
\<close>

theorem no_effective_parameter_is_rejected:
  assumes "bandwidth_rate tc \<in> {None, Some (PyInt 0), Some (PyFloat (Finite 0))}"
    and "latency_ms tc \<in> {None, Some (PyInt 0), Some (PyFloat (Finite 0))}"
    and "packet_loss_rate tc \<in> {None, Some (PyInt 0), Some (PyFloat (Finite 0))}"
    and "corruption_rate tc \<in> {None, Some (PyInt 0), Some (PyFloat (Finite 0))}"
  shows "(\<exists>err. validate_netem_parameter tc = Inl err)
    \<and> (bandwidth_rate tc = None \<and>
        (case latency_distro_ms tc of
           None \<Rightarrow> True
         | Some (PyInt i) \<Rightarrow> 0 \<le> i \<and> i \<le> 10000
         | Some (PyFloat (Finite r)) \<Rightarrow> 0 \<le> r \<and> r \<le> 10000
         | Some (PyFloat NaN) \<Rightarrow> True
         | Some (PyFloat _) \<Rightarrow> False)
        \<longrightarrow> validate_netem_parameter tc = Inl ValueError_no_valid_parameter)
    \<and> (bandwidth_rate tc = Some z
        \<longrightarrow> validate_netem_parameter tc = Inl (InvalidParameterError z))"
proof -
  have lat: "validate_within_min_max ''latency_ms'' (latency_ms tc) MIN_LATENCY_MS MAX_LATENCY_MS
               = Inr ()"
    using assms(2) by (auto simp: within_min_max_simps MIN_LATENCY_MS_def MAX_LATENCY_MS_def)
  have loss: "validate_packet_loss_rate tc = Inr ()"
    using assms(3) by (auto simp: validator_defs within_min_max_simps)
  have corr: "validate_corruption_rate tc = Inr ()"
    using assms(4) by (auto simp: validator_defs within_min_max_simps)
  have none: "list_all (\<lambda>v. \<not> FloatType_is_type v
                             \<or> (case v of None \<Rightarrow> False | Some x \<Rightarrow> py_eq x 0))
                [bandwidth_rate tc, latency_ms tc, packet_loss_rate tc, corruption_rate tc]"
    using assms by (auto simp: FloatType_is_type_def)
  have bw: "py_le r 0" if "bandwidth_rate tc = Some r" for r
    using assms(1) that by auto
  have eq: "validate_netem_parameter tc =
      (case bandwidth_rate tc of
         Some r \<Rightarrow> Inl (InvalidParameterError r)
       | None \<Rightarrow>
          (case validate_within_min_max ''latency_distro_ms'' (latency_distro_ms tc)
                  MIN_LATENCY_MS MAX_LATENCY_MS of
             Inl err \<Rightarrow> Inl err
           | Inr _ \<Rightarrow> Inl ValueError_no_valid_parameter))"
    using none bw
    by (auto simp: validate_netem_parameter_def catch_empty_parameter validate_network_delay_def
          lat loss corr Let_def split: sum.split option.split)
  have distro: "(case latency_distro_ms tc of
           None \<Rightarrow> True
         | Some (PyInt i) \<Rightarrow> 0 \<le> i \<and> i \<le> 10000
         | Some (PyFloat (Finite r)) \<Rightarrow> 0 \<le> r \<and> r \<le> 10000
         | Some (PyFloat NaN) \<Rightarrow> True
         | Some (PyFloat _) \<Rightarrow> False)
      \<Longrightarrow> validate_within_min_max ''latency_distro_ms'' (latency_distro_ms tc)
                  MIN_LATENCY_MS MAX_LATENCY_MS = Inr ()"
    by (auto simp: within_min_max_simps MIN_LATENCY_MS_def MAX_LATENCY_MS_def
          split: option.splits pynum.splits pyfloat.splits)
  show ?thesis
    using distro
    by (auto simp: eq split: sum.split option.split)
qed

theorem no_effective_parameter_is_rejected_witness:
  "bandwidth_rate tc_eth0 \<in> {None, Some (PyInt 0), Some (PyFloat (Finite 0))}
   \<and> latency_ms tc_eth0 \<in> {None, Some (PyInt 0), Some (PyFloat (Finite 0))}
   \<and> packet_loss_rate tc_eth0 \<in> {None, Some (PyInt 0), Some (PyFloat (Finite 0))}
   \<and> corruption_rate tc_eth0 \<in> {None, Some (PyInt 0), Some (PyFloat (Finite 0))}
   \<and> latency_distro_ms tc_eth0 = None
   \<and> validate_netem_parameter tc_eth0 = Inl ValueError_no_valid_parameter
   \<and> bandwidth_rate (tc_eth0\<lparr>bandwidth_rate := Some (PyFloat (Finite 0)),
                              latency_ms := Some (PyInt 0)\<rparr>) = Some (PyFloat (Finite 0))
   \<and> validate_netem_parameter (tc_eth0\<lparr>bandwidth_rate := Some (PyFloat (Finite 0)),
                                         latency_ms := Some (PyInt 0)\<rparr>)
       = Inl (InvalidParameterError (PyFloat (Finite 0)))"
  using no_effective_parameter_is_rejected [of tc_eth0]
    no_effective_parameter_is_rejected
      [of "tc_eth0\<lparr>bandwidth_rate := Some (PyFloat (Finite 0)), latency_ms := Some (PyInt 0)\<rparr>"
          "PyFloat (Finite 0)"]
  by (simp add: tc_eth0_def)

text \<open>
  Claim C7, as stated, fails: the object for \<open>eth0\<close> with direction OUTGOING, a latency
  of 50 ms and no bandwidth rate passes the full validation on a host that has the
  interface.
\<close>

theorem absent_rate_passes_validation:
  "bandwidth_rate (tc_eth0\<lparr>direction := OUTGOING, latency_ms := Some (PyInt 50)\<rparr>) = None
   \<and> validate host_ok sanitize_accepting
        (tc_eth0\<lparr>direction := OUTGOING, latency_ms := Some (PyInt 50)\<rparr>) []
      = Inr (tc_eth0\<lparr>direction := OUTGOING, latency_ms := Some (PyInt 50),
                      network := Some [], src_network := Some []\<rparr>)"
  by (simp add: validate_def verify_network_interface_def host_ok_def tc_eth0_def
        validate_netem_parameter_def validate_bandwidth_rate_cases validator_defs
        within_min_max_simps sanitize_accepting_def FloatType_is_type_def)

text \<open>
  Claim C7, amended. \<open>validate_bandwidth_rate\<close> fails with \<open>EmptyParameterError\<close> exactly
  when the bandwidth rate is absent. \<open>__validate_netem_parameter\<close> catches this error
  and goes on, so neither it nor the full validation ever fails with
  \<open>EmptyParameterError\<close>.
\<close>

theorem empty_parameter_only_from_validate_bandwidth_rate:
  "(validate_bandwidth_rate tc = Inl EmptyParameterError) = (bandwidth_rate tc = None)
   \<and> validate_netem_parameter tc \<noteq> Inl EmptyParameterError
   \<and> validate e sanitize_network tc h \<noteq> Inl EmptyParameterError"
  using validate_netem_parameter_not_empty validate_not_empty
  by (auto simp: validate_bandwidth_rate_cases split: option.splits)

theorem empty_parameter_only_from_validate_bandwidth_rate_witness:
  "validate_bandwidth_rate tc_eth0 = Inl EmptyParameterError
   \<and> bandwidth_rate tc_eth0 = None
   \<and> validate_netem_parameter tc_eth0 \<noteq> Inl EmptyParameterError
   \<and> validate host_ok sanitize_accepting tc_eth0 [] \<noteq> Inl EmptyParameterError"
  using empty_parameter_only_from_validate_bandwidth_rate
          [of tc_eth0 host_ok sanitize_accepting "[]"]
  by (simp add: tc_eth0_def)

end
